theory Spec2Isabelle
  imports Complex_Main "HOL-Library.Sublist"
begin

section \<open>Data model (types/expense.ts)\<close>

text \<open>
  A JavaScript \<open>number\<close> that holds money is modelled as an exact rational: the
  comparisons of the source are exact on finite numbers, and sums are taken without
  rounding. A \<open>Date\<close> is its time value, the milliseconds since the epoch, and the
  calendar functions of date-fns are read in UTC.

  The interfaces \<open>Expense\<close>, \<open>Category\<close> and \<open>Budget\<close> share field names; the
  fields carry a prefix (\<open>e_\<close>, \<open>c_\<close>, \<open>b_\<close>) to keep them apart.
\<close>

datatype txn_type = Income | Expense

datatype period = Weekly | Monthly

datatype filter_type = F_all | F_income | F_expense

record Expense =
  e_id :: string
  e_amount :: rat
  e_categoryId :: string
  e_description :: string
  e_date :: int
  e_type :: txn_type
  e_createdAt :: int


record Budget =
  b_id :: string
  b_categoryId :: string
  b_amount :: rat
  b_period :: period
  b_createdAt :: int

text \<open>\<open>minAmount\<close> and \<open>maxAmount\<close> are optional: \<open>None\<close> is \<open>undefined\<close>.\<close>

record FilterOptions =
  startDate :: int
  endDate :: int
  categories :: "string list"
  minAmount :: "rat option"
  maxAmount :: "rat option"
  type_f :: filter_type

section \<open>Filtering (pages/Index.tsx, filteredExpenses)\<close>

text \<open>JavaScript truthiness of an optional number: \<open>undefined\<close> and \<open>0\<close> are falsy.\<close>

definition truthy :: "rat option \<Rightarrow> bool" where
  "truthy v = (case v of None \<Rightarrow> False | Some x \<Rightarrow> x \<noteq> 0)"

text \<open>\<open>amount >= bound\<close> and \<open>amount <= bound\<close>; against \<open>undefined\<close> both are false.\<close>

definition ge_bound :: "rat \<Rightarrow> rat option \<Rightarrow> bool" where
  "ge_bound a v = (case v of None \<Rightarrow> False | Some m \<Rightarrow> a \<ge> m)"

definition le_bound :: "rat \<Rightarrow> rat option \<Rightarrow> bool" where
  "le_bound a v = (case v of None \<Rightarrow> False | Some m \<Rightarrow> a \<le> m)"

text \<open>The string of an expense's type, as a value of the filter's type field.\<close>

fun type_str :: "txn_type \<Rightarrow> filter_type" where
  "type_str Income = F_income"
| "type_str Expense = F_expense"

definition dateInRange :: "FilterOptions \<Rightarrow> Expense \<Rightarrow> bool" where
  "dateInRange filters expense =
     (e_date expense \<ge> startDate filters \<and> e_date expense \<le> endDate filters)"

definition categoryMatch :: "FilterOptions \<Rightarrow> Expense \<Rightarrow> bool" where
  "categoryMatch filters expense =
     (length (categories filters) = 0 \<or> e_categoryId expense \<in> set (categories filters))"

definition amountMatch :: "FilterOptions \<Rightarrow> Expense \<Rightarrow> bool" where
  "amountMatch filters expense =
     ((\<not> truthy (minAmount filters) \<or> ge_bound (e_amount expense) (minAmount filters)) \<and>
      (\<not> truthy (maxAmount filters) \<or> le_bound (e_amount expense) (maxAmount filters)))"

definition typeMatch :: "FilterOptions \<Rightarrow> Expense \<Rightarrow> bool" where
  "typeMatch filters expense =
     (type_f filters = F_all \<or> type_str (e_type expense) = type_f filters)"

definition filteredExpenses :: "Expense list \<Rightarrow> FilterOptions \<Rightarrow> Expense list" where
  "filteredExpenses expenses filters =
     filter (\<lambda>expense. dateInRange filters expense \<and> categoryMatch filters expense \<and>
                       amountMatch filters expense \<and> typeMatch filters expense) expenses"

text \<open>
  The matching rule in the words of the specification: a bound that is set always
  restricts, whatever its value.
\<close>

definition spec_matches :: "FilterOptions \<Rightarrow> Expense \<Rightarrow> bool" where
  "spec_matches filters expense =
     (startDate filters \<le> e_date expense \<and> e_date expense \<le> endDate filters \<and>
      (categories filters = [] \<or> e_categoryId expense \<in> set (categories filters)) \<and>
      (minAmount filters = None \<or> ge_bound (e_amount expense) (minAmount filters)) \<and>
      (maxAmount filters = None \<or> le_bound (e_amount expense) (maxAmount filters)) \<and>
      (type_f filters = F_all \<or> type_str (e_type expense) = type_f filters))"

section \<open>Dates (the date-fns functions the components call, in UTC)\<close>

text \<open>
  \<open>Day t\<close> is the day number of a time value and \<open>getDay\<close> its weekday (0 is Sunday;
  day 0 of the epoch is a Thursday). Year, month and day of the month follow the
  proleptic Gregorian calendar of the \<open>Date\<close> object, computed with the
  day-of-era arithmetic; months count from 0 as \<open>getMonth\<close> does. \<open>MakeDay\<close> is the
  day number of a year, a month (which may run past 11) and a day of the month (which
  may be 0, the day before the first).
\<close>

definition msPerDay :: int where
  "msPerDay = 86400000"

definition Day :: "int \<Rightarrow> int" where
  "Day t = t div msPerDay"

definition getDay :: "int \<Rightarrow> int" where
  "getDay t = (Day t + 4) mod 7"

definition civil_from_days :: "int \<Rightarrow> int \<times> int \<times> int" where
  "civil_from_days z0 =
     (let z = z0 + 719468;
          era = z div 146097;
          doe = z - era * 146097;
          yoe = (doe - doe div 1460 + doe div 36524 - doe div 146096) div 365;
          y = yoe + era * 400;
          doy = doe - (365 * yoe + yoe div 4 - yoe div 100);
          mp = (5 * doy + 2) div 153;
          d = doy - (153 * mp + 2) div 5 + 1;
          m = (if mp < 10 then mp + 3 else mp - 9)
      in (if m \<le> 2 then y + 1 else y, m, d))"

definition days_from_civil :: "int \<Rightarrow> int \<Rightarrow> int \<Rightarrow> int" where
  "days_from_civil y0 m d =
     (let y = (if m \<le> 2 then y0 - 1 else y0);
          era = y div 400;
          yoe = y - era * 400;
          doy = (153 * (if m > 2 then m - 3 else m + 9) + 2) div 5 + d - 1;
          doe = yoe * 365 + yoe div 4 - yoe div 100 + doy
      in era * 146097 + doe - 719468)"

definition getFullYear :: "int \<Rightarrow> int" where
  "getFullYear t = (case civil_from_days (Day t) of (y, m, d) \<Rightarrow> y)"

definition getMonth :: "int \<Rightarrow> int" where
  "getMonth t = (case civil_from_days (Day t) of (y, m, d) \<Rightarrow> m - 1)"


definition MakeDay :: "int \<Rightarrow> int \<Rightarrow> int \<Rightarrow> int" where
  "MakeDay year month date =
     days_from_civil (year + month div 12) (month mod 12 + 1) 1 + date - 1"


text \<open>\<open>startOfMonth\<close>: \<open>setDate(1)\<close>, then \<open>setHours(0, 0, 0, 0)\<close>.\<close>

definition startOfMonth :: "int \<Rightarrow> int" where
  "startOfMonth t = MakeDay (getFullYear t) (getMonth t) 1 * msPerDay"

text \<open>\<open>endOfMonth\<close>: \<open>setFullYear(year, month + 1, 0)\<close>, then \<open>setHours(23, 59, 59, 999)\<close>.\<close>

definition endOfMonth :: "int \<Rightarrow> int" where
  "endOfMonth t = MakeDay (getFullYear t) (getMonth t + 1) 0 * msPerDay + (msPerDay - 1)"

text \<open>The week starts on Sunday: the components pass no \<open>weekStartsOn\<close>.\<close>

definition weekStartsOn :: int where
  "weekStartsOn = 0"

definition startOfWeek :: "int \<Rightarrow> int" where
  "startOfWeek t =
     (let day = getDay t;
          diff = (if day < weekStartsOn then 7 else 0) + day - weekStartsOn
      in (Day t - diff) * msPerDay)"

definition endOfWeek :: "int \<Rightarrow> int" where
  "endOfWeek t =
     (let day = getDay t;
          diff = (if day < weekStartsOn then - 7 else 0) + 6 - (day - weekStartsOn)
      in (Day t + diff) * msPerDay + (msPerDay - 1))"




text \<open>\<open>Number.prototype.toString\<close> on an integer: its decimal digits.\<close>

definition digit :: "nat \<Rightarrow> char" where
  "digit d = ''0123456789'' ! d"

function digits :: "nat \<Rightarrow> string" where
  "digits n = (if n < 10 then [digit n] else digits (n div 10) @ [digit (n mod 10)])"
  by pat_completeness auto
termination
  by (relation "measure (\<lambda>n. n)") auto

declare digits.simps [simp del]

definition toString :: "int \<Rightarrow> string" where
  "toString n = (if n < 0 then CHR ''-'' # digits (nat (- n)) else digits (nat n))"



section \<open>Sums\<close>

text \<open>\<open>xs.reduce((sum, expense) => sum + expense.amount, 0)\<close>.\<close>

definition sumAmounts :: "Expense list \<Rightarrow> rat" where
  "sumAmounts xs = foldl (\<lambda>sum expense. sum + e_amount expense) 0 xs"

section \<open>Category totals (utils/expenseUtils.ts)\<close>



section \<open>Time series (components/ChartsSection.tsx)\<close>

record DailyPoint =
  dp_date :: string
  dp_expenses :: rat
  dp_income :: rat
  dp_net :: rat

record CumulativePoint =
  cp_date :: string
  cumulativeIncome :: rat
  cumulativeExpenses :: rat
  balance :: rat


text \<open>
  The two running totals are variables outside the \<open>map\<close> callback; here they are
  passed along the list.
\<close>

fun cumulative_from :: "rat \<Rightarrow> rat \<Rightarrow> DailyPoint list \<Rightarrow> CumulativePoint list" where
  "cumulative_from ci ce [] = []"
| "cumulative_from ci ce (day # rest) =
     (let ci' = ci + dp_income day;
          ce' = ce + dp_expenses day
      in \<lparr>cp_date = dp_date day, cumulativeIncome = ci', cumulativeExpenses = ce',
          balance = ci' - ce'\<rparr> # cumulative_from ci' ce' rest)"

definition getCumulativeData :: "DailyPoint list \<Rightarrow> CumulativePoint list" where
  "getCumulativeData dailyData = cumulative_from 0 0 dailyData"

section \<open>Budgets (components/BudgetTracker.tsx)\<close>

definition getSpentAmount :: "int \<Rightarrow> Expense list \<Rightarrow> Budget \<Rightarrow> rat" where
  "getSpentAmount now expenses budget =
     (let startD = (if b_period budget = Weekly then startOfWeek now else startOfMonth now);
          endD = (if b_period budget = Weekly then endOfWeek now else endOfMonth now)
      in sumAmounts
           (filter (\<lambda>expense. e_type expense = Expense \<and>
                       e_categoryId expense = b_categoryId budget \<and>
                       e_date expense \<ge> startD \<and> e_date expense \<le> endD)
              expenses))"

text \<open>
  The quotient \<open>spent / budget.amount\<close> is not guarded against a zero amount: a
  JavaScript division by zero gives an infinity, or NaN for 0 / 0.
\<close>

datatype quotient = Finite rat | Infinity | NegInfinity | NaN

definition js_div :: "rat \<Rightarrow> rat \<Rightarrow> quotient" where
  "js_div a b =
     (if b \<noteq> 0 then Finite (a / b)
      else if a > 0 then Infinity else if a < 0 then NegInfinity else NaN)"

fun js_times :: "quotient \<Rightarrow> rat \<Rightarrow> quotient" where
  "js_times (Finite q) k = Finite (q * k)"
| "js_times Infinity k = (if k > 0 then Infinity else if k < 0 then NegInfinity else NaN)"
| "js_times NegInfinity k = (if k > 0 then NegInfinity else if k < 0 then Infinity else NaN)"
| "js_times NaN k = NaN"

fun js_ge :: "quotient \<Rightarrow> rat \<Rightarrow> bool" where
  "js_ge (Finite q) k = (q \<ge> k)"
| "js_ge Infinity k = True"
| "js_ge NegInfinity k = False"
| "js_ge NaN k = False"

fun Math_min :: "quotient \<Rightarrow> rat \<Rightarrow> quotient" where
  "Math_min (Finite q) k = Finite (min q k)"
| "Math_min Infinity k = Finite k"
| "Math_min NegInfinity k = NegInfinity"
| "Math_min NaN k = NaN"

record BudgetStatus =
  status :: string
  color :: string

definition getBudgetStatus :: "Budget \<Rightarrow> rat \<Rightarrow> BudgetStatus" where
  "getBudgetStatus budget spent =
     (let percentage = js_times (js_div spent (b_amount budget)) 100
      in if js_ge percentage 100 then \<lparr>status = ''exceeded'', color = ''bg-red-500''\<rparr>
         else if js_ge percentage 80 then \<lparr>status = ''warning'', color = ''bg-orange-500''\<rparr>
         else if js_ge percentage 50 then \<lparr>status = ''moderate'', color = ''bg-yellow-500''\<rparr>
         else \<lparr>status = ''good'', color = ''bg-green-500''\<rparr>)"

text \<open>What a budget card shows, computed in the \<open>budgets.map\<close> of the render.\<close>

record BudgetCard =
  card_spent :: rat
  card_remaining :: rat
  card_percentage :: quotient
  card_status :: BudgetStatus

definition cardOf :: "Budget \<Rightarrow> rat \<Rightarrow> BudgetCard" where
  "cardOf budget spent =
     \<lparr>card_spent = spent,
      card_remaining = b_amount budget - spent,
      card_percentage = Math_min (js_times (js_div spent (b_amount budget)) 100) 100,
      card_status = getBudgetStatus budget spent\<rparr>"

definition budgetCard :: "int \<Rightarrow> Expense list \<Rightarrow> Budget \<Rightarrow> BudgetCard" where
  "budgetCard now expenses budget = cardOf budget (getSpentAmount now expenses budget)"

text \<open>
  The page hands the tracker the filtered list (\<open>expenses={filteredExpenses}\<close>), so this
  is the spent amount a budget card shows for the page's transactions and filters.
\<close>

definition Index_budget_spent ::
  "int \<Rightarrow> Expense list \<Rightarrow> FilterOptions \<Rightarrow> Budget \<Rightarrow> rat" where
  "Index_budget_spent now expenses filters budget =
     getSpentAmount now (filteredExpenses expenses filters) budget"

text \<open>
  The spent amount in the words of the specification: the sum over all expense
  transactions of the budget's category in the current week or month.
\<close>

definition spec_spent :: "int \<Rightarrow> Expense list \<Rightarrow> Budget \<Rightarrow> rat" where
  "spec_spent now expenses budget =
     sum_list (map e_amount
       (filter (\<lambda>e. e_type e = Expense \<and> e_categoryId e = b_categoryId budget \<and>
                    (if b_period budget = Weekly
                     then startOfWeek now \<le> e_date e \<and> e_date e \<le> endOfWeek now
                     else startOfMonth now \<le> e_date e \<and> e_date e \<le> endOfMonth now))
          expenses))"

text \<open>
  A toast is kept by its title and its variant. The amount field of the form is the
  text of a number input read through \<open>parseFloat\<close>: \<open>None\<close> is the empty text,
  \<open>Some a\<close> a text that reads as \<open>a\<close>.
\<close>

record Toast =
  title :: string
  destructive :: bool

record BudgetForm =
  fd_categoryId :: string
  fd_amount :: "rat option"
  fd_period :: period

record BudgetTrackerState =
  bt_budgets :: "Budget list"
  bt_isFormOpen :: bool
  bt_editingBudget :: "Budget option"
  bt_formData :: BudgetForm
  bt_toasts :: "Toast list"

definition bt_toast :: "Toast \<Rightarrow> BudgetTrackerState \<Rightarrow> BudgetTrackerState" where
  "bt_toast t s = s\<lparr>bt_toasts := bt_toasts s @ [t]\<rparr>"

definition bt_reset :: "BudgetTrackerState \<Rightarrow> BudgetTrackerState" where
  "bt_reset s =
     s\<lparr>bt_formData := \<lparr>fd_categoryId = '''', fd_amount = None, fd_period = Monthly\<rparr>,
       bt_isFormOpen := False, bt_editingBudget := None\<rparr>"

definition handleSubmit :: "int \<Rightarrow> BudgetTrackerState \<Rightarrow> BudgetTrackerState" where
  "handleSubmit now s =
     (let formData = bt_formData s
      in case fd_amount formData of
           None \<Rightarrow> bt_toast \<lparr>title = ''Error'', destructive = True\<rparr> s
         | Some amount \<Rightarrow>
             if fd_categoryId formData = '''' then
               bt_toast \<lparr>title = ''Error'', destructive = True\<rparr> s
             else if amount \<le> 0 then
               bt_toast \<lparr>title = ''Error'', destructive = True\<rparr> s
             else
               (case bt_editingBudget s of
                  Some editingBudget \<Rightarrow>
                    bt_reset (bt_toast \<lparr>title = ''Budget Updated'', destructive = False\<rparr>
                      (s\<lparr>bt_budgets :=
                           map (\<lambda>budget.
                                  if b_id budget = b_id editingBudget
                                  then budget\<lparr>b_categoryId := fd_categoryId formData,
                                              b_amount := amount,
                                              b_period := fd_period formData\<rparr>
                                  else budget)
                             (bt_budgets s)\<rparr>))
                | None \<Rightarrow>
                    (case find (\<lambda>budget. b_categoryId budget = fd_categoryId formData \<and>
                                         b_period budget = fd_period formData)
                            (bt_budgets s) of
                       Some existingBudget \<Rightarrow>
                         bt_toast \<lparr>title = ''Budget Exists'', destructive = True\<rparr> s
                     | None \<Rightarrow>
                         bt_reset (bt_toast \<lparr>title = ''Budget Added'', destructive = False\<rparr>
                           (s\<lparr>bt_budgets :=
                                bt_budgets s @
                                [\<lparr>b_id = toString now,
                                  b_categoryId = fd_categoryId formData,
                                  b_amount = amount,
                                  b_period = fd_period formData,
                                  b_createdAt = now\<rparr>]\<rparr>)))))"

section \<open>Transactions (pages/Index.tsx)\<close>

text \<open>The fields a form submits: an \<open>Expense\<close> without \<open>id\<close> and \<open>createdAt\<close>.\<close>

record ExpenseData =
  ed_amount :: rat
  ed_categoryId :: string
  ed_description :: string
  ed_date :: int
  ed_type :: txn_type

record IndexState =
  ix_expenses :: "Expense list"
  ix_isFormOpen :: bool
  ix_editingExpense :: "Expense option"
  ix_toasts :: "Toast list"

definition handleAddExpense :: "int \<Rightarrow> ExpenseData \<Rightarrow> IndexState \<Rightarrow> IndexState" where
  "handleAddExpense now expenseData s =
     (let newExpense =
            \<lparr>e_id = toString now, e_amount = ed_amount expenseData,
             e_categoryId = ed_categoryId expenseData,
             e_description = ed_description expenseData, e_date = ed_date expenseData,
             e_type = ed_type expenseData, e_createdAt = now\<rparr>
      in s\<lparr>ix_expenses := newExpense # ix_expenses s,
           ix_isFormOpen := False,
           ix_toasts := ix_toasts s @ [\<lparr>title = ''Expense Added'', destructive = False\<rparr>]\<rparr>)"

definition handleEditExpense :: "string \<Rightarrow> ExpenseData \<Rightarrow> IndexState \<Rightarrow> IndexState" where
  "handleEditExpense ident expenseData s =
     s\<lparr>ix_expenses :=
         map (\<lambda>expense.
                if e_id expense = ident
                then expense\<lparr>e_amount := ed_amount expenseData,
                             e_categoryId := ed_categoryId expenseData,
                             e_description := ed_description expenseData,
                             e_date := ed_date expenseData,
                             e_type := ed_type expenseData\<rparr>
                else expense)
           (ix_expenses s),
       ix_editingExpense := None,
       ix_toasts := ix_toasts s @ [\<lparr>title = ''Expense Updated'', destructive = False\<rparr>]\<rparr>"

definition handleDeleteExpense :: "string \<Rightarrow> IndexState \<Rightarrow> IndexState" where
  "handleDeleteExpense ident s =
     s\<lparr>ix_expenses := filter (\<lambda>expense. e_id expense \<noteq> ident) (ix_expenses s),
       ix_toasts := ix_toasts s @ [\<lparr>title = ''Expense Deleted'', destructive = True\<rparr>]\<rparr>"

section \<open>Quantities the claims speak of\<close>



text \<open>The pair that the duplicate check of the budget form compares.\<close>

definition budgetKey :: "Budget \<Rightarrow> string \<times> period" where
  "budgetKey budget = (b_categoryId budget, b_period budget)"

section \<open>Sample data\<close>

text \<open>
  2024-03-10 is day 19792 of the epoch; March 2024 is days 19783 to 19813 and February
  2024 days 19754 to 19782. \<open>now0\<close> is noon of Friday 2024-03-15.
\<close>

definition lunch :: Expense where
  "lunch = \<lparr>e_id = ''a'', e_amount = 50, e_categoryId = ''1'', e_description = ''lunch'',
            e_date = 1710028800000, e_type = Expense, e_createdAt = 1710028800000\<rparr>"

definition march :: FilterOptions where
  "march = \<lparr>startDate = 1709251200000, endDate = 1711929599999, categories = [],
            minAmount = None, maxAmount = None, type_f = F_all\<rparr>"

definition february :: FilterOptions where
  "february = \<lparr>startDate = 1706745600000, endDate = 1709251199999, categories = [],
               minAmount = None, maxAmount = None, type_f = F_all\<rparr>"

definition now0 :: int where
  "now0 = 1710504000000"


definition foodBudget :: Budget where
  "foodBudget = \<lparr>b_id = ''b1'', b_categoryId = ''1'', b_amount = 100, b_period = Monthly,
                 b_createdAt = 1709251200000\<rparr>"

text \<open>An expense of amount 0 in a category that does not exist, and a negative amount.\<close>

definition stray :: Expense where
  "stray = \<lparr>e_id = ''z'', e_amount = 0, e_categoryId = ''99'', e_description = ''free sample'',
            e_date = 1710028800000, e_type = Expense, e_createdAt = 1710028800000\<rparr>"



definition twoDays :: "DailyPoint list" where
  "twoDays = [\<lparr>dp_date = ''Mar 01'', dp_expenses = 10, dp_income = 0, dp_net = - 10\<rparr>,
              \<lparr>dp_date = ''Mar 02'', dp_expenses = 5, dp_income = 100, dp_net = 95\<rparr>]"

definition rentBudget :: Budget where
  "rentBudget = \<lparr>b_id = ''b2'', b_categoryId = ''9'', b_amount = 900, b_period = Monthly,
                 b_createdAt = 1709251200000\<rparr>"

text \<open>
  The budget form asks for a monthly budget of 200 for category 1, once as a new budget
  and once while the budget of category 9 is being edited.
\<close>

definition foodForm :: BudgetForm where
  "foodForm = \<lparr>fd_categoryId = ''1'', fd_amount = Some 200, fd_period = Monthly\<rparr>"

definition creating :: BudgetTrackerState where
  "creating = \<lparr>bt_budgets = [foodBudget, rentBudget], bt_isFormOpen = True,
               bt_editingBudget = None, bt_formData = foodForm, bt_toasts = []\<rparr>"

definition editing :: BudgetTrackerState where
  "editing = creating\<lparr>bt_editingBudget := Some rentBudget\<rparr>"

definition coffee :: ExpenseData where
  "coffee = \<lparr>ed_amount = 4, ed_categoryId = ''1'', ed_description = ''coffee'',
             ed_date = 1710504000000, ed_type = Expense\<rparr>"

definition salary :: ExpenseData where
  "salary = \<lparr>ed_amount = 3000, ed_categoryId = ''8'', ed_description = ''salary'',
             ed_date = 1710504000000, ed_type = Income\<rparr>"

definition page :: IndexState where
  "page = \<lparr>ix_expenses = [lunch, stray], ix_isFormOpen = False, ix_editingExpense = None,
           ix_toasts = []\<rparr>"

section \<open>Auxiliary facts\<close>

lemma foldl_add_amounts:
  "foldl (\<lambda>sum expense. sum + e_amount expense) a xs = a + sum_list (map e_amount xs)"
  by (induction xs arbitrary: a) simp_all

lemma sumAmounts_sum_list: "sumAmounts xs = sum_list (map e_amount xs)"
  by (simp add: sumAmounts_def foldl_add_amounts)

lemma msPerDay_pos: "0 < msPerDay"
  by (simp add: msPerDay_def)

lemma Day_bounds: "Day t * msPerDay \<le> t \<and> t \<le> Day t * msPerDay + (msPerDay - 1)"
proof -
  have "Day t * msPerDay = t - t mod msPerDay"
    unfolding Day_def by (simp add: minus_mod_eq_div_mult)
  moreover have "0 \<le> t mod msPerDay" "t mod msPerDay < msPerDay"
    using msPerDay_pos by simp_all
  ultimately show ?thesis
    by linarith
qed

lemma getDay_range: "0 \<le> getDay t \<and> getDay t \<le> 6"
  unfolding getDay_def by simp

lemma week_window_contains_now: "startOfWeek now \<le> now \<and> now \<le> endOfWeek now"
proof -
  define w where "w = getDay now"
  have w: "0 \<le> w" "w \<le> 6" using getDay_range [of now] by (simp_all add: w_def)
  have lo: "(Day now - w) * msPerDay \<le> Day now * msPerDay"
    using w msPerDay_pos by (simp add: mult_right_mono)
  have hi: "Day now * msPerDay \<le> (Day now + (6 - w)) * msPerDay"
    using w msPerDay_pos by (simp add: mult_right_mono)
  have s: "startOfWeek now = (Day now - w) * msPerDay"
    using w by (simp add: startOfWeek_def weekStartsOn_def Let_def w_def)
  have e: "endOfWeek now = (Day now + (6 - w)) * msPerDay + (msPerDay - 1)"
    using w by (simp add: endOfWeek_def weekStartsOn_def Let_def w_def)
  show ?thesis
    unfolding s e using lo hi Day_bounds [of now] by linarith
qed

lemma week_window_length: "endOfWeek now = startOfWeek now + 7 * msPerDay - 1"
  by (simp add: startOfWeek_def endOfWeek_def weekStartsOn_def Let_def algebra_simps)

lemma week_window_starts_sunday: "getDay (startOfWeek now) = 0"
proof -
  define w where "w = getDay now"
  have w: "0 \<le> w" using getDay_range [of now] by (simp add: w_def)
  have s: "startOfWeek now = (Day now - w) * msPerDay"
    using w by (simp add: startOfWeek_def weekStartsOn_def Let_def w_def)
  have d: "Day (startOfWeek now) = Day now - w"
    unfolding s using msPerDay_pos by (simp add: Day_def)
  have "(Day now - (Day now + 4) mod 7 + 4) mod 7 = 0"
    by presburger
  then show ?thesis
    unfolding getDay_def [of "startOfWeek now"] d w_def getDay_def [of now] .
qed

lemma window_march: "startOfMonth now0 = 1709251200000 \<and> endOfMonth now0 = 1711929599999"
  by code_simp

lemma month_windows:
  "startOfMonth 1707566400000 = 1706745600000 \<and> endOfMonth 1707566400000 = 1709251199999 \<and>
   startOfMonth 1704067199999 = 1701388800000 \<and> endOfMonth 1704067199999 = 1704067199999 \<and>
   startOfMonth 0 = 0 \<and> endOfMonth (- 1) = - 1"
  by code_simp









lemma cumulative_from_length: "length (cumulative_from ci ce ds) = length ds"
  by (induction ds arbitrary: ci ce) (simp_all add: Let_def)

lemma cumulative_from_nth:
  "k < length ds \<Longrightarrow>
   cumulative_from ci ce ds ! k =
     \<lparr>cp_date = dp_date (ds ! k),
      cumulativeIncome = ci + sum_list (map dp_income (take (Suc k) ds)),
      cumulativeExpenses = ce + sum_list (map dp_expenses (take (Suc k) ds)),
      balance = (ci + sum_list (map dp_income (take (Suc k) ds))) -
                (ce + sum_list (map dp_expenses (take (Suc k) ds)))\<rparr>"
proof (induction ds arbitrary: ci ce k)
  case Nil
  then show ?case by simp
next
  case (Cons d ds)
  show ?case
  proof (cases k)
    case 0
    then show ?thesis by (simp add: Let_def)
  next
    case (Suc j)
    with Cons.prems have "j < length ds" by simp
    from Cons.IH [OF this, of "ci + dp_income d" "ce + dp_expenses d"] Suc
    show ?thesis by (simp add: Let_def add.assoc)
  qed
qed






lemma find_duplicate:
  assumes "\<exists>b \<in> set bs. P b"
  shows "\<exists>b. find P bs = Some b"
  using assms by (cases "find P bs") (auto simp: find_None_iff)

lemma handleSubmit_existing:
  assumes e: "bt_editingBudget s = None"
    and f: "find (\<lambda>budget. b_categoryId budget = fd_categoryId (bt_formData s) \<and>
                b_period budget = fd_period (bt_formData s)) (bt_budgets s) = Some b0"
  shows "handleSubmit now s =
           (if fd_categoryId (bt_formData s) \<noteq> '''' \<and>
               (\<exists>a. fd_amount (bt_formData s) = Some a \<and> 0 < a)
            then bt_toast \<lparr>title = ''Budget Exists'', destructive = True\<rparr> s
            else bt_toast \<lparr>title = ''Error'', destructive = True\<rparr> s)"
proof (cases "fd_amount (bt_formData s)")
  case None
  then show ?thesis by (simp add: handleSubmit_def Let_def)
next
  case (Some a)
  then show ?thesis by (simp add: handleSubmit_def Let_def e f not_less)
qed

lemma budgetKey_eq: "budgetKey b = (c, p) \<longleftrightarrow> b_categoryId b = c \<and> b_period b = p"
  unfolding budgetKey_def by (rule prod.inject)

lemma handleSubmit_editing:
  assumes "bt_editingBudget s = Some eb" "fd_categoryId (bt_formData s) \<noteq> ''''"
    "fd_amount (bt_formData s) = Some a" "0 < a"
  shows "bt_budgets (handleSubmit now s) =
        map (\<lambda>b. if b_id b = b_id eb
                  then b\<lparr>b_categoryId := fd_categoryId (bt_formData s), b_amount := a,
                         b_period := fd_period (bt_formData s)\<rparr>
                  else b) (bt_budgets s)"
  using assms by (simp add: handleSubmit_def Let_def bt_toast_def bt_reset_def)

lemma editing_makes_duplicate:
  "bt_editingBudget editing \<noteq> None \<and>
   distinct (map budgetKey (bt_budgets editing)) \<and>
   \<not> distinct (map budgetKey (bt_budgets (handleSubmit 0 editing)))"
  by code_simp

lemma handleSubmit_create_duplicate:
  assumes e: "bt_editingBudget s = None"
    and d: "\<exists>b \<in> set (bt_budgets s). budgetKey b =
              (fd_categoryId (bt_formData s), fd_period (bt_formData s))"
  shows "bt_budgets (handleSubmit now s) = bt_budgets s \<and>
         (\<exists>t. bt_toasts (handleSubmit now s) = bt_toasts s @ [t] \<and> destructive t) \<and>
         (fd_categoryId (bt_formData s) \<noteq> '''' \<and>
          (\<exists>a. fd_amount (bt_formData s) = Some a \<and> 0 < a) \<longrightarrow>
            bt_toasts (handleSubmit now s) =
              bt_toasts s @ [\<lparr>title = ''Budget Exists'', destructive = True\<rparr>])"
proof -
  from d have "\<exists>b \<in> set (bt_budgets s).
      b_categoryId b = fd_categoryId (bt_formData s) \<and>
      b_period b = fd_period (bt_formData s)"
    unfolding budgetKey_eq .
  then have "\<exists>b0. find (\<lambda>budget. b_categoryId budget = fd_categoryId (bt_formData s) \<and>
              b_period budget = fd_period (bt_formData s)) (bt_budgets s) = Some b0"
    by (rule find_duplicate)
  then obtain b0 where
    f: "find (\<lambda>budget. b_categoryId budget = fd_categoryId (bt_formData s) \<and>
              b_period budget = fd_period (bt_formData s)) (bt_budgets s) = Some b0" ..
  note r = handleSubmit_existing [OF e f, of now]
  have b: "bt_budgets (handleSubmit now s) = bt_budgets s"
    unfolding r by (simp add: bt_toast_def)
  have t: "\<exists>t. bt_toasts (handleSubmit now s) = bt_toasts s @ [t] \<and> destructive t"
    unfolding r by (simp add: bt_toast_def)
  have x: "fd_categoryId (bt_formData s) \<noteq> '''' \<and>
          (\<exists>a. fd_amount (bt_formData s) = Some a \<and> 0 < a) \<longrightarrow>
            bt_toasts (handleSubmit now s) =
              bt_toasts s @ [\<lparr>title = ''Budget Exists'', destructive = True\<rparr>]"
    unfolding r by (simp add: bt_toast_def)
  from b t x show ?thesis by (intro conjI)
qed

lemma digits_numeral:
  "digits (numeral k) =
     (if (numeral k :: nat) < 10 then [digit (numeral k)]
      else digits (numeral k div 10) @ [digit (numeral k mod 10)])"
  by (rule digits.simps)

lemma added_ids:
  "map e_id (take 2 (ix_expenses (handleAddExpense now d2 (handleAddExpense now d1 s)))) =
     [toString now, toString now]"
  by (simp add: handleAddExpense_def Let_def)

lemma delete_same_ms:
  "ix_expenses (handleDeleteExpense (toString now)
      (handleAddExpense now d2 (handleAddExpense now d1 s))) =
   ix_expenses (handleDeleteExpense (toString now) s)"
  by (simp add: handleAddExpense_def handleDeleteExpense_def Let_def)

lemma digits_one: "digits (Suc 0) = ''1''"
  by (subst digits.simps) (simp add: digit_def)

lemma toString_now0: "toString now0 = ''1710504000000''"
  by (simp add: toString_def now0_def digits_numeral digits_one digit_def)

section \<open>Properties of the filter\<close>

lemma truthy_iff: "truthy v \<longleftrightarrow> v \<noteq> None \<and> v \<noteq> Some 0"
  by (cases v) (simp_all add: truthy_def)

text \<open>
  C1, as the code has it. The filter keeps exactly the transactions, in their order, whose
  date lies in [startDate, endDate], whose category is selected (or no category is
  selected), whose amount respects each bound that is set and is not zero (a bound of 0
  counts as no bound), and whose type is the requested one (or the request is 'all').
\<close>

theorem filteredExpenses_retains:
  "filteredExpenses expenses filters =
     filter (\<lambda>e. startDate filters \<le> e_date e \<and> e_date e \<le> endDate filters \<and>
                 (categories filters = [] \<or> e_categoryId e \<in> set (categories filters)) \<and>
                 (minAmount filters = None \<or> minAmount filters = Some 0 \<or>
                    ge_bound (e_amount e) (minAmount filters)) \<and>
                 (maxAmount filters = None \<or> maxAmount filters = Some 0 \<or>
                    le_bound (e_amount e) (maxAmount filters)) \<and>
                 (type_f filters = F_all \<or> type_str (e_type e) = type_f filters)) expenses"
  unfolding filteredExpenses_def dateInRange_def categoryMatch_def amountMatch_def
    typeMatch_def truthy_iff
  by (rule filter_cong) auto

theorem filteredExpenses_retains_witness:
  "filteredExpenses [lunch, lunch\<lparr>e_amount := 5\<rparr>] (march\<lparr>minAmount := Some 10\<rparr>) = [lunch]"
  unfolding filteredExpenses_retains [of "[lunch, lunch\<lparr>e_amount := 5\<rparr>]" "march\<lparr>minAmount := Some 10\<rparr>"]
  by (simp add: lunch_def march_def ge_bound_def)

text \<open>
  C1 as stated fails: with the maximum bound set to 0 the code keeps a transaction of
  amount 50, which the stated rule excludes.
\<close>

theorem filteredExpenses_zero_bound_counterexample:
  "lunch \<in> set (filteredExpenses [lunch] (march\<lparr>maxAmount := Some 0\<rparr>)) \<and>
   \<not> spec_matches (march\<lparr>maxAmount := Some 0\<rparr>) lunch"
  by (simp add: filteredExpenses_def dateInRange_def categoryMatch_def amountMatch_def
      typeMatch_def truthy_def spec_matches_def le_bound_def lunch_def march_def)

text \<open>
  C4. With an empty category set the filter is the conjunction of the other three tests,
  and it agrees with any category set that contains the category of every transaction
  in the list: the empty set restricts nothing.
\<close>

theorem filteredExpenses_empty_categories:
  assumes "categories filters = []"
  shows "filteredExpenses expenses filters =
           filter (\<lambda>e. dateInRange filters e \<and> amountMatch filters e \<and> typeMatch filters e)
             expenses \<and>
         (set (map e_categoryId expenses) \<subseteq> set cs \<longrightarrow>
            filteredExpenses expenses filters =
            filteredExpenses expenses (filters\<lparr>categories := cs\<rparr>))"
proof (intro conjI impI)
  show "filteredExpenses expenses filters =
          filter (\<lambda>e. dateInRange filters e \<and> amountMatch filters e \<and> typeMatch filters e) expenses"
    using assms by (simp add: filteredExpenses_def categoryMatch_def)
next
  assume sub: "set (map e_categoryId expenses) \<subseteq> set cs"
  show "filteredExpenses expenses filters = filteredExpenses expenses (filters\<lparr>categories := cs\<rparr>)"
    unfolding filteredExpenses_def
  proof (rule filter_cong [OF refl])
    fix e assume "e \<in> set expenses"
    with sub have "e_categoryId e \<in> set cs" by auto
    with assms show "(dateInRange filters e \<and> categoryMatch filters e \<and> amountMatch filters e \<and>
                      typeMatch filters e) =
                     (dateInRange (filters\<lparr>categories := cs\<rparr>) e \<and>
                      categoryMatch (filters\<lparr>categories := cs\<rparr>) e \<and>
                      amountMatch (filters\<lparr>categories := cs\<rparr>) e \<and>
                      typeMatch (filters\<lparr>categories := cs\<rparr>) e)"
      by (simp add: dateInRange_def categoryMatch_def amountMatch_def typeMatch_def)
  qed
qed

theorem filteredExpenses_empty_categories_witness:
  "categories march = [] \<and>
   filteredExpenses [lunch] march = [lunch] \<and>
   filteredExpenses [lunch] (march\<lparr>categories := [''1'']\<rparr>) = [lunch]"
proof -
  have h: "categories march = []" by (simp add: march_def)
  have m: "dateInRange march lunch \<and> amountMatch march lunch \<and> typeMatch march lunch"
    by (simp add: dateInRange_def amountMatch_def typeMatch_def truthy_def march_def lunch_def)
  have s: "set (map e_categoryId [lunch]) \<subseteq> set [''1'']" by (simp add: lunch_def)
  note t = filteredExpenses_empty_categories [OF h, of "[lunch]" "[''1'']"]
  from t have "filteredExpenses [lunch] march =
      filter (\<lambda>e. dateInRange march e \<and> amountMatch march e \<and> typeMatch march e) [lunch]"
    by blast
  with m have a: "filteredExpenses [lunch] march = [lunch]"
    by simp
  from t s have b: "filteredExpenses [lunch] march =
      filteredExpenses [lunch] (march\<lparr>categories := [''1'']\<rparr>)"
    by blast
  from b [symmetric] a h show ?thesis by simp
qed

section \<open>Properties of the budget cards\<close>

text \<open>
  C2, as the code has it. The spent amount of a budget is the sum of the amounts of the
  expense transactions that pass the active filter, reference the budget's category and
  are dated within the week (weekly budget) or month (monthly budget) containing the
  current date. The window comes from the current date alone, but only filtered
  transactions are summed.
\<close>

theorem budget_spent_over_filtered:
  "Index_budget_spent now expenses filters budget =
     sum_list (map e_amount
       (filter (\<lambda>e. (dateInRange filters e \<and> categoryMatch filters e \<and>
                     amountMatch filters e \<and> typeMatch filters e) \<and>
                    e_type e = Expense \<and> e_categoryId e = b_categoryId budget \<and>
                    (if b_period budget = Weekly
                     then startOfWeek now \<le> e_date e \<and> e_date e \<le> endOfWeek now
                     else startOfMonth now \<le> e_date e \<and> e_date e \<le> endOfMonth now))
          expenses))"
  unfolding Index_budget_spent_def getSpentAmount_def filteredExpenses_def
    sumAmounts_sum_list Let_def filter_filter
  by (rule arg_cong [where f = "\<lambda>p. sum_list (map e_amount (filter p expenses))"]) auto

theorem budget_spent_over_filtered_witness:
  "Index_budget_spent now0 [lunch, lunch\<lparr>e_type := Income\<rparr>] march foodBudget = 50"
  unfolding budget_spent_over_filtered
  by (simp add: window_march dateInRange_def categoryMatch_def amountMatch_def typeMatch_def
      truthy_def march_def lunch_def foodBudget_def)

text \<open>
  C2 as stated fails: a March expense of 50 counts for the March budget when the filter
  shows March, and no longer counts when the filter shows February, while the sum over
  all transactions of the current month is 50 in both cases.
\<close>

theorem budget_spent_filter_counterexample:
  "spec_spent now0 [lunch] foodBudget = 50 \<and>
   Index_budget_spent now0 [lunch] february foodBudget = 0 \<and>
   Index_budget_spent now0 [lunch] march foodBudget = 50"
  by (simp add: spec_spent_def Index_budget_spent_def getSpentAmount_def filteredExpenses_def
      sumAmounts_def window_march dateInRange_def categoryMatch_def amountMatch_def
      typeMatch_def truthy_def march_def february_def lunch_def foodBudget_def)



section \<open>Properties of the time series\<close>



text \<open>
  C7. The k-th point of the cumulative series carries the sum of the incomes of the first
  k daily points, the sum of their expenses, and the difference of the two as balance.
\<close>

theorem getCumulativeData_prefix_sums:
  "length (getCumulativeData dailyData) = length dailyData \<and>
   (\<forall>k < length dailyData.
      cumulativeIncome (getCumulativeData dailyData ! k) =
        sum_list (map dp_income (take (Suc k) dailyData)) \<and>
      cumulativeExpenses (getCumulativeData dailyData ! k) =
        sum_list (map dp_expenses (take (Suc k) dailyData)) \<and>
      balance (getCumulativeData dailyData ! k) =
        cumulativeIncome (getCumulativeData dailyData ! k) -
        cumulativeExpenses (getCumulativeData dailyData ! k) \<and>
      cp_date (getCumulativeData dailyData ! k) = dp_date (dailyData ! k))"
  by (simp add: getCumulativeData_def cumulative_from_length cumulative_from_nth)


theorem getCumulativeData_prefix_sums_witness:
  "1 < length twoDays \<and>
   cumulativeIncome (getCumulativeData twoDays ! 1) = 100 \<and>
   cumulativeExpenses (getCumulativeData twoDays ! 1) = 15 \<and>
   balance (getCumulativeData twoDays ! 1) = 85"
proof -
  have k: "1 < length twoDays" by (simp add: twoDays_def)
  note t = getCumulativeData_prefix_sums [of twoDays, THEN conjunct2, rule_format, OF k]
  have i: "sum_list (map dp_income (take (Suc 1) twoDays)) = 100"
    by (simp add: twoDays_def)
  have x: "sum_list (map dp_expenses (take (Suc 1) twoDays)) = 15"
    by (simp add: twoDays_def)
  from t have a: "cumulativeIncome (getCumulativeData twoDays ! 1) = 100"
    unfolding i by blast
  from t have b: "cumulativeExpenses (getCumulativeData twoDays ! 1) = 15"
    unfolding x by blast
  from t have "balance (getCumulativeData twoDays ! 1) =
        cumulativeIncome (getCumulativeData twoDays ! 1) -
        cumulativeExpenses (getCumulativeData twoDays ! 1)"
    by blast
  then have c: "balance (getCumulativeData twoDays ! 1) = 85"
    unfolding a b by simp
  from k a b c show ?thesis by blast
qed


section \<open>Properties of the category totals\<close>





section \<open>Properties of the budget form\<close>

text \<open>
  C8. Submitting the form for a new budget while a budget with the same category and
  period exists leaves the budgets unchanged and shows a destructive notice, which is
  'Budget Exists' when the fields are filled in and the amount is positive. Submitting
  while a budget is being edited replaces its category, amount and period without any
  such check, and this can leave two budgets with the same category and period.
\<close>

theorem handleSubmit_duplicate:
  "(bt_editingBudget s = None \<and>
    (\<exists>b \<in> set (bt_budgets s). budgetKey b =
        (fd_categoryId (bt_formData s), fd_period (bt_formData s))) \<longrightarrow>
      bt_budgets (handleSubmit now s) = bt_budgets s \<and>
      (\<exists>t. bt_toasts (handleSubmit now s) = bt_toasts s @ [t] \<and> destructive t) \<and>
      (fd_categoryId (bt_formData s) \<noteq> '''' \<and>
       (\<exists>a. fd_amount (bt_formData s) = Some a \<and> 0 < a) \<longrightarrow>
         bt_toasts (handleSubmit now s) =
           bt_toasts s @ [\<lparr>title = ''Budget Exists'', destructive = True\<rparr>])) \<and>
   (bt_editingBudget s = Some eb \<and> fd_categoryId (bt_formData s) \<noteq> '''' \<and>
    fd_amount (bt_formData s) = Some a \<and> 0 < a \<longrightarrow>
      bt_budgets (handleSubmit now s) =
        map (\<lambda>b. if b_id b = b_id eb
                  then b\<lparr>b_categoryId := fd_categoryId (bt_formData s), b_amount := a,
                         b_period := fd_period (bt_formData s)\<rparr>
                  else b) (bt_budgets s)) \<and>
   (\<exists>s' now'. bt_editingBudget s' \<noteq> None \<and>
      distinct (map budgetKey (bt_budgets s')) \<and>
      \<not> distinct (map budgetKey (bt_budgets (handleSubmit now' s'))))"
proof (rule conjI [OF _ conjI])
  show "bt_editingBudget s = None \<and>
    (\<exists>b \<in> set (bt_budgets s). budgetKey b =
        (fd_categoryId (bt_formData s), fd_period (bt_formData s))) \<longrightarrow>
      bt_budgets (handleSubmit now s) = bt_budgets s \<and>
      (\<exists>t. bt_toasts (handleSubmit now s) = bt_toasts s @ [t] \<and> destructive t) \<and>
      (fd_categoryId (bt_formData s) \<noteq> '''' \<and>
       (\<exists>a. fd_amount (bt_formData s) = Some a \<and> 0 < a) \<longrightarrow>
         bt_toasts (handleSubmit now s) =
           bt_toasts s @ [\<lparr>title = ''Budget Exists'', destructive = True\<rparr>])"
  proof
    assume h: "bt_editingBudget s = None \<and>
      (\<exists>b \<in> set (bt_budgets s). budgetKey b =
        (fd_categoryId (bt_formData s), fd_period (bt_formData s)))"
    show "bt_budgets (handleSubmit now s) = bt_budgets s \<and>
      (\<exists>t. bt_toasts (handleSubmit now s) = bt_toasts s @ [t] \<and> destructive t) \<and>
      (fd_categoryId (bt_formData s) \<noteq> '''' \<and>
       (\<exists>a. fd_amount (bt_formData s) = Some a \<and> 0 < a) \<longrightarrow>
         bt_toasts (handleSubmit now s) =
           bt_toasts s @ [\<lparr>title = ''Budget Exists'', destructive = True\<rparr>])"
      by (rule handleSubmit_create_duplicate [OF conjunct1 [OF h] conjunct2 [OF h]])
  qed
next
  show "bt_editingBudget s = Some eb \<and> fd_categoryId (bt_formData s) \<noteq> '''' \<and>
    fd_amount (bt_formData s) = Some a \<and> 0 < a \<longrightarrow>
      bt_budgets (handleSubmit now s) =
        map (\<lambda>b. if b_id b = b_id eb
                  then b\<lparr>b_categoryId := fd_categoryId (bt_formData s), b_amount := a,
                         b_period := fd_period (bt_formData s)\<rparr>
                  else b) (bt_budgets s)"
  proof
    assume h: "bt_editingBudget s = Some eb \<and> fd_categoryId (bt_formData s) \<noteq> '''' \<and>
      fd_amount (bt_formData s) = Some a \<and> 0 < a"
    then have "bt_editingBudget s = Some eb" "fd_categoryId (bt_formData s) \<noteq> ''''"
      "fd_amount (bt_formData s) = Some a" "0 < a"
      by blast+
    then show "bt_budgets (handleSubmit now s) =
        map (\<lambda>b. if b_id b = b_id eb
                  then b\<lparr>b_categoryId := fd_categoryId (bt_formData s), b_amount := a,
                         b_period := fd_period (bt_formData s)\<rparr>
                  else b) (bt_budgets s)"
      by (rule handleSubmit_editing)
  qed
next
  from editing_makes_duplicate
  show "\<exists>s' now'. bt_editingBudget s' \<noteq> None \<and>
      distinct (map budgetKey (bt_budgets s')) \<and>
      \<not> distinct (map budgetKey (bt_budgets (handleSubmit now' s')))"
    by (intro exI)
qed


theorem handleSubmit_duplicate_witness:
  "bt_editingBudget creating = None \<and>
   foodBudget \<in> set (bt_budgets creating) \<and>
   budgetKey foodBudget = (fd_categoryId (bt_formData creating), fd_period (bt_formData creating)) \<and>
   bt_budgets (handleSubmit now0 creating) = [foodBudget, rentBudget] \<and>
   bt_toasts (handleSubmit now0 creating) = [\<lparr>title = ''Budget Exists'', destructive = True\<rparr>] \<and>
   bt_editingBudget editing = Some rentBudget \<and>
   map budgetKey (bt_budgets (handleSubmit now0 editing)) =
     [(''1'', Monthly), (''1'', Monthly)]"
proof -
  have e: "bt_editingBudget creating = None"
    by (simp add: creating_def)
  have mem: "foodBudget \<in> set (bt_budgets creating)"
    by (simp add: creating_def)
  have key: "budgetKey foodBudget =
      (fd_categoryId (bt_formData creating), fd_period (bt_formData creating))"
    by code_simp
  from mem key have dup: "\<exists>b \<in> set (bt_budgets creating). budgetKey b =
        (fd_categoryId (bt_formData creating), fd_period (bt_formData creating))"
    by (rule bexI [rotated])
  have ok: "fd_categoryId (bt_formData creating) \<noteq> '''' \<and>
       (\<exists>a. fd_amount (bt_formData creating) = Some a \<and> 0 < a)"
    by (simp add: creating_def foodForm_def)
  note t = handleSubmit_duplicate [where s = creating and now = now0, THEN conjunct1,
      rule_format, OF conjI [OF e dup]]
  have bs: "bt_budgets creating = [foodBudget, rentBudget]" "bt_toasts creating = []"
    by (simp_all add: creating_def)
  from t have b: "bt_budgets (handleSubmit now0 creating) = [foodBudget, rentBudget]"
    unfolding bs by (rule conjunct1)
  from t have "fd_categoryId (bt_formData creating) \<noteq> '''' \<and>
       (\<exists>a. fd_amount (bt_formData creating) = Some a \<and> 0 < a) \<longrightarrow>
         bt_toasts (handleSubmit now0 creating) =
           bt_toasts creating @ [\<lparr>title = ''Budget Exists'', destructive = True\<rparr>]"
    by (rule conjunct2 [THEN conjunct2])
  with ok have n: "bt_toasts (handleSubmit now0 creating) =
      [\<lparr>title = ''Budget Exists'', destructive = True\<rparr>]"
    unfolding bs by simp
  have e2: "bt_editingBudget editing = Some rentBudget"
    by (simp add: editing_def)
  have ok2: "bt_editingBudget editing = Some rentBudget \<and>
      fd_categoryId (bt_formData editing) \<noteq> '''' \<and>
      fd_amount (bt_formData editing) = Some 200 \<and> (0::rat) < 200"
    by (simp add: editing_def creating_def foodForm_def)
  note u = handleSubmit_duplicate [where s = editing and eb = rentBudget and a = 200
      and now = now0, THEN conjunct2, THEN conjunct1, rule_format, OF ok2]
  have m: "map budgetKey (bt_budgets (handleSubmit now0 editing)) =
     [(''1'', Monthly), (''1'', Monthly)]"
    unfolding u by code_simp
  from e mem key b n e2 m show ?thesis by (intro conjI)
qed

section \<open>Properties of editing and deleting transactions\<close>

text \<open>
  C9. Editing by id keeps the length of the collection and every transaction with
  another id; a transaction with the edited id keeps its id and createdAt and takes
  amount, categoryId, description, date and type from the submitted data.
\<close>

theorem handleEditExpense_frame:
  "length (ix_expenses (handleEditExpense ident expenseData s)) = length (ix_expenses s) \<and>
   (\<forall>k < length (ix_expenses s).
      (e_id (ix_expenses s ! k) \<noteq> ident \<longrightarrow>
         ix_expenses (handleEditExpense ident expenseData s) ! k = ix_expenses s ! k) \<and>
      (e_id (ix_expenses s ! k) = ident \<longrightarrow>
         e_id (ix_expenses (handleEditExpense ident expenseData s) ! k) = ident \<and>
         e_createdAt (ix_expenses (handleEditExpense ident expenseData s) ! k) =
           e_createdAt (ix_expenses s ! k) \<and>
         e_amount (ix_expenses (handleEditExpense ident expenseData s) ! k) =
           ed_amount expenseData \<and>
         e_categoryId (ix_expenses (handleEditExpense ident expenseData s) ! k) =
           ed_categoryId expenseData \<and>
         e_description (ix_expenses (handleEditExpense ident expenseData s) ! k) =
           ed_description expenseData \<and>
         e_date (ix_expenses (handleEditExpense ident expenseData s) ! k) =
           ed_date expenseData \<and>
         e_type (ix_expenses (handleEditExpense ident expenseData s) ! k) =
           ed_type expenseData))"
  by (simp add: handleEditExpense_def)

theorem handleEditExpense_frame_witness:
  "(1::nat) < length (ix_expenses page) \<and> e_id (ix_expenses page ! 1) \<noteq> ''a'' \<and>
   e_id (ix_expenses page ! 0) = ''a'' \<and>
   length (ix_expenses (handleEditExpense ''a'' coffee page)) = 2 \<and>
   ix_expenses (handleEditExpense ''a'' coffee page) ! 1 = stray \<and>
   e_createdAt (ix_expenses (handleEditExpense ''a'' coffee page) ! 0) = 1710028800000 \<and>
   e_amount (ix_expenses (handleEditExpense ''a'' coffee page) ! 0) = 4"
proof -
  have p: "ix_expenses page = [lunch, stray]" by (simp add: page_def)
  have k1: "(1::nat) < length (ix_expenses page)" and k0: "(0::nat) < length (ix_expenses page)"
    unfolding p by simp_all
  have i1: "e_id (ix_expenses page ! 1) \<noteq> ''a''" unfolding p by (simp add: stray_def)
  have i0: "e_id (ix_expenses page ! 0) = ''a''" unfolding p by (simp add: lunch_def)
  note t = handleEditExpense_frame [of "''a''" coffee page]
  from t have len: "length (ix_expenses (handleEditExpense ''a'' coffee page)) = 2"
    unfolding p by simp
  from t [THEN conjunct2, rule_format, OF k1] i1
  have a: "ix_expenses (handleEditExpense ''a'' coffee page) ! 1 = stray"
    unfolding p by simp
  from t [THEN conjunct2, rule_format, OF k0, THEN conjunct2, rule_format, OF i0]
  have b: "e_createdAt (ix_expenses (handleEditExpense ''a'' coffee page) ! 0) = 1710028800000"
    and c: "e_amount (ix_expenses (handleEditExpense ''a'' coffee page) ! 0) = 4"
    unfolding p by (simp_all add: lunch_def coffee_def)
  from k1 i1 i0 len a b c show ?thesis by (intro conjI)
qed


text \<open>
  C10. Deleting by id leaves no transaction with that id, and the transactions with other
  ids stay as they were, in their order. Two transactions added at the same millisecond
  get the same id, and one delete of that id removes both.
\<close>

theorem handleDeleteExpense_removes_all:
  "(\<forall>e \<in> set (ix_expenses (handleDeleteExpense ident s)). e_id e \<noteq> ident) \<and>
   filter (\<lambda>e. e_id e \<noteq> ident) (ix_expenses (handleDeleteExpense ident s)) =
     filter (\<lambda>e. e_id e \<noteq> ident) (ix_expenses s) \<and>
   subseq (ix_expenses (handleDeleteExpense ident s)) (ix_expenses s) \<and>
   map e_id (take 2 (ix_expenses (handleAddExpense now d2 (handleAddExpense now d1 s)))) =
     [toString now, toString now] \<and>
   ix_expenses (handleDeleteExpense (toString now)
      (handleAddExpense now d2 (handleAddExpense now d1 s))) =
     ix_expenses (handleDeleteExpense (toString now) s)"
proof -
  have r: "ix_expenses (handleDeleteExpense ident s) =
             filter (\<lambda>e. e_id e \<noteq> ident) (ix_expenses s)"
    by (simp add: handleDeleteExpense_def)
  have a: "\<forall>e \<in> set (ix_expenses (handleDeleteExpense ident s)). e_id e \<noteq> ident"
    unfolding r set_filter by (rule ballI) (erule CollectE, erule conjunct2)
  have b: "filter (\<lambda>e. e_id e \<noteq> ident) (ix_expenses (handleDeleteExpense ident s)) =
             filter (\<lambda>e. e_id e \<noteq> ident) (ix_expenses s)"
    unfolding r filter_filter by (rule arg_cong [where f = "\<lambda>p. filter p (ix_expenses s)"]) (rule ext, rule conj_absorb)
  have c: "subseq (ix_expenses (handleDeleteExpense ident s)) (ix_expenses s)"
    unfolding r by (rule subseq_filter_left)
  from a b c added_ids delete_same_ms show ?thesis by (intro conjI)
qed

theorem handleDeleteExpense_removes_all_witness:
  "e_id lunch = ''a'' \<and>
   ix_expenses (handleDeleteExpense ''a'' (page\<lparr>ix_expenses := [lunch, stray, lunch]\<rparr>)) = [stray] \<and>
   map e_id (ix_expenses (handleAddExpense now0 salary (handleAddExpense now0 coffee page))) =
     [''1710504000000'', ''1710504000000'', ''a'', ''z''] \<and>
   ix_expenses (handleDeleteExpense ''1710504000000''
      (handleAddExpense now0 salary (handleAddExpense now0 coffee page))) = [lunch, stray]"
proof -
  have i: "e_id lunch = ''a''" by (simp add: lunch_def)
  have d0: "ix_expenses (handleDeleteExpense ''1710504000000'' page) = [lunch, stray]"
    by (simp add: handleDeleteExpense_def page_def lunch_def stray_def)
  from handleDeleteExpense_removes_all [of "toString now0" page now0 salary coffee]
  have "ix_expenses (handleDeleteExpense (toString now0)
      (handleAddExpense now0 salary (handleAddExpense now0 coffee page))) =
     ix_expenses (handleDeleteExpense (toString now0) page)"
    by (rule conjunct2 [THEN conjunct2, THEN conjunct2, THEN conjunct2])
  then have w: "ix_expenses (handleDeleteExpense ''1710504000000''
      (handleAddExpense now0 salary (handleAddExpense now0 coffee page))) = [lunch, stray]"
    unfolding toString_now0 d0 .
  have x: "ix_expenses (handleDeleteExpense ''a'' (page\<lparr>ix_expenses := [lunch, stray, lunch]\<rparr>)) = [stray]"
    by (simp add: handleDeleteExpense_def page_def lunch_def stray_def)
  have y: "map e_id (ix_expenses (handleAddExpense now0 salary (handleAddExpense now0 coffee page))) =
     [''1710504000000'', ''1710504000000'', ''a'', ''z'']"
    by (simp add: handleAddExpense_def Let_def toString_now0 page_def lunch_def stray_def)
  from i x y w show ?thesis by (intro conjI)
qed


end
